theory Spec2Isabelle
  imports Complex_Main "HOL-Library.Word"
begin

unbundle bit_operations_syntax

section \<open>The SGP30 driver (sgp30.py) as a shallow embedding\<close>

text \<open>
  Python integers are unbounded, so they are \<^typ>\<open>int\<close>; \<open><<\<close>, \<open>>>\<close>, \<open>&\<close>, \<open>|\<close> and
  \<open>^\<close> are \<^const>\<open>push_bit\<close>, \<^const>\<open>drop_bit\<close>, \<open>AND\<close>, \<open>OR\<close> and \<open>XOR\<close> on \<^typ>\<open>int\<close>
  (two's complement with infinitely many sign bits, as in Python). Byte strings and
  tuples of integers are \<^typ>\<open>int list\<close>. An exception is the \<open>Inl\<close> branch of a sum.
\<close>

subsection \<open>Checksum: \<open>SGP30._crc8\<close>\<close>

text \<open>The body of the inner loop \<open>for _ in range(8)\<close>.\<close>

definition crc8_shift :: "int \<Rightarrow> int" where
  "crc8_shift crc =
     (if crc AND 0x80 \<noteq> 0 then (push_bit 1 crc AND 0xFF) XOR 0x31
      else push_bit 1 crc AND 0xFF)"

text \<open>\<open>for _ in range(k)\<close>: the body \<open>k\<close> times.\<close>

fun crc8_range :: "nat \<Rightarrow> int \<Rightarrow> int" where
  "crc8_range 0 crc = crc"
| "crc8_range (Suc k) crc = crc8_range k (crc8_shift crc)"

text \<open>\<open>for byte in data\<close>, with the accumulator \<open>crc\<close> passed along.\<close>

fun crc8_loop :: "int \<Rightarrow> int list \<Rightarrow> int" where
  "crc8_loop crc [] = crc"
| "crc8_loop crc (byte # data) = crc8_loop (crc8_range 8 (crc XOR byte)) data"

definition crc8 :: "int list \<Rightarrow> int" where
  "crc8 data = crc8_loop 0xFF data"

subsection \<open>Exceptions, the collaborators and the driver handle\<close>

text \<open>
  The exceptions the driver raises itself, the two that the built-in \<open>int\<close> raises on a
  float that is not finite, and \<open>Transport x\<close> for an exception \<open>x\<close> raised by the I2C
  object inside \<open>writeto\<close> or \<open>readfrom\<close>.
\<close>

datatype 'x error =
    FramingLength int int  \<comment> \<open>\<open>OSError("SGP30: expected %d bytes, got %d" % (n_words*3, len(raw)))\<close>\<close>
  | CRCMismatch            \<comment> \<open>\<open>OSError("SGP30 CRC mismatch")\<close>\<close>
  | InvalidBaseline        \<comment> \<open>\<open>ValueError("Invalid baseline: both zero")\<close>\<close>
  | InvalidHumidity        \<comment> \<open>\<open>ValueError("absolute humidity must be positive (g/m3)")\<close>\<close>
  | IntOfInfinity          \<comment> \<open>\<open>OverflowError\<close>, raised by \<open>int(x)\<close> on an infinite float\<close>
  | IntOfNaN               \<comment> \<open>\<open>ValueError\<close>, raised by \<open>int(x)\<close> on a NaN\<close>
  | Transport 'x

text \<open>
  The handle holds \<open>self.i2c\<close> and \<open>self.address\<close>. The I2C object and \<open>time.sleep\<close> act
  on an outside world of type \<open>'s\<close>: every call takes the world and returns the new one,
  also when it raises.
\<close>

record ('s, 'x) SGP30 =
  writeto :: "int \<Rightarrow> int list \<Rightarrow> 's \<Rightarrow> ('x + unit) \<times> 's"
  readfrom :: "int \<Rightarrow> int \<Rightarrow> 's \<Rightarrow> ('x + int list) \<times> 's"
  sleep :: "rat \<Rightarrow> 's \<Rightarrow> 's"
  address :: int

text \<open>Sequencing of two statements: an exception of the first skips the second.\<close>

definition io_bind ::
  "('s \<Rightarrow> ('e + 'a) \<times> 's) \<Rightarrow> ('a \<Rightarrow> 's \<Rightarrow> ('e + 'b) \<times> 's) \<Rightarrow> 's \<Rightarrow> ('e + 'b) \<times> 's" where
  "io_bind m f s = (case m s of (Inl e, s') \<Rightarrow> (Inl e, s') | (Inr a, s') \<Rightarrow> f a s')"

text \<open>A call of the I2C object from the driver: its exception passes through unchanged.\<close>

definition bus_call :: "('x + 'a) \<times> 's \<Rightarrow> ('x error + 'a) \<times> 's" where
  "bus_call r = (case r of (Inl x, s') \<Rightarrow> (Inl (Transport x), s') | (Inr a, s') \<Rightarrow> (Inr a, s'))"

subsection \<open>Commands\<close>

definition CMD_INIT_AIR_QUALITY :: "int \<times> int" where
  "CMD_INIT_AIR_QUALITY = (0x20, 0x03)"

definition CMD_MEASURE_IAQ :: "int \<times> int" where
  "CMD_MEASURE_IAQ = (0x20, 0x08)"

definition CMD_GET_IAQ_BASELINE :: "int \<times> int" where
  "CMD_GET_IAQ_BASELINE = (0x20, 0x15)"

definition CMD_SET_IAQ_BASELINE :: "int \<times> int" where
  "CMD_SET_IAQ_BASELINE = (0x20, 0x1E)"

definition CMD_MEASURE_RAW :: "int \<times> int" where
  "CMD_MEASURE_RAW = (0x20, 0x50)"

definition CMD_MEASURE_TEST :: "int \<times> int" where
  "CMD_MEASURE_TEST = (0x20, 0x32)"

definition CMD_SET_ABSOLUTE_HUMIDITY :: "int \<times> int" where
  "CMD_SET_ABSOLUTE_HUMIDITY = (0x20, 0x61)"

definition CMD_GET_SERIAL_ID :: "int \<times> int" where
  "CMD_GET_SERIAL_ID = (0x36, 0x82)"

definition CMD_SOFT_RESET :: "int \<times> int" where
  "CMD_SOFT_RESET = (0x00, 0x06)"

record SGP30Reading =
  equivalent_co2 :: int
  total_voc :: int

subsection \<open>Low-level helpers\<close>

definition cmd_to_bytes :: "int \<times> int \<Rightarrow> int list" where
  "cmd_to_bytes cmd = [fst cmd, snd cmd]"

text \<open>The loop \<open>for value in arguments\<close> of \<open>_write_command\<close>, extending \<open>buf\<close>.\<close>

fun extend_args :: "int list \<Rightarrow> int list \<Rightarrow> int list" where
  "extend_args buf [] = buf"
| "extend_args buf (value # arguments) =
     (let hi = drop_bit 8 value AND 0xFF;
          lo = value AND 0xFF;
          crc = crc8 [hi, lo]
      in extend_args (buf @ [hi, lo, crc]) arguments)"

definition write_command ::
  "('s, 'x) SGP30 \<Rightarrow> int \<times> int \<Rightarrow> int list \<Rightarrow> 's \<Rightarrow> ('x error + unit) \<times> 's" where
  "write_command self cmd arguments s =
     (let buf = extend_args (cmd_to_bytes cmd) arguments
      in bus_call (writeto self (address self) buf s))"

definition read_bytes ::
  "('s, 'x) SGP30 \<Rightarrow> int \<Rightarrow> rat \<Rightarrow> 's \<Rightarrow> ('x error + int list) \<times> 's" where
  "read_bytes self count delay s =
     (let s1 = (if delay \<noteq> 0 then sleep self delay s else s)
      in bus_call (readfrom self (address self) count s1))"

text \<open>
  The loop \<open>for i in range(n_words)\<close> of \<open>_read_words_with_crc\<close>, over the indices still
  to visit, with the list \<open>words\<close> built so far. It runs only after the length check, so
  the three indices are inside \<open>raw\<close>.
\<close>

fun read_words_loop :: "int list \<Rightarrow> nat list \<Rightarrow> int list \<Rightarrow> 'x error + int list" where
  "read_words_loop raw [] words = Inr words"
| "read_words_loop raw (i # rest) words =
     (let a = raw ! (i * 3);
          b = raw ! (i * 3 + 1);
          crc = raw ! (i * 3 + 2)
      in if crc8 [a, b] \<noteq> crc then Inl CRCMismatch
         else read_words_loop raw rest (words @ [push_bit 8 a OR b]))"

definition read_words_with_crc ::
  "('s, 'x) SGP30 \<Rightarrow> int \<Rightarrow> rat \<Rightarrow> 's \<Rightarrow> ('x error + int list) \<times> 's" where
  "read_words_with_crc self n_words delay =
     io_bind (read_bytes self (n_words * 3) delay) (\<lambda>raw s.
       if int (length raw) \<noteq> n_words * 3
       then (Inl (FramingLength (n_words * 3) (int (length raw))), s)
       else (read_words_loop raw [0..<nat n_words] [], s))"

subsection \<open>High-level API\<close>

definition init_air_quality :: "('s, 'x) SGP30 \<Rightarrow> 's \<Rightarrow> ('x error + unit) \<times> 's" where
  "init_air_quality self =
     io_bind (write_command self CMD_INIT_AIR_QUALITY []) (\<lambda>_ s.
       (Inr (), sleep self (1 / 100) s))"

definition measure_iaq :: "('s, 'x) SGP30 \<Rightarrow> 's \<Rightarrow> ('x error + SGP30Reading) \<times> 's" where
  "measure_iaq self =
     io_bind (write_command self CMD_MEASURE_IAQ []) (\<lambda>_.
     io_bind (read_words_with_crc self 2 (15 / 1000)) (\<lambda>words s.
       (Inr \<lparr>equivalent_co2 = words ! 0, total_voc = words ! 1\<rparr>, s)))"

definition measure_raw :: "('s, 'x) SGP30 \<Rightarrow> 's \<Rightarrow> ('x error + int \<times> int) \<times> 's" where
  "measure_raw self =
     io_bind (write_command self CMD_MEASURE_RAW []) (\<lambda>_.
     io_bind (read_words_with_crc self 2 (2 / 100)) (\<lambda>words s.
       (Inr (words ! 0, words ! 1), s)))"

definition measure_test :: "('s, 'x) SGP30 \<Rightarrow> 's \<Rightarrow> ('x error + bool) \<times> 's" where
  "measure_test self =
     io_bind (write_command self CMD_MEASURE_TEST []) (\<lambda>_.
     io_bind (read_words_with_crc self 1 (2 / 10)) (\<lambda>words s.
       (Inr (words ! 0 = 0xD400), s)))"

definition get_baseline :: "('s, 'x) SGP30 \<Rightarrow> 's \<Rightarrow> ('x error + int \<times> int) \<times> 's" where
  "get_baseline self =
     io_bind (write_command self CMD_GET_IAQ_BASELINE []) (\<lambda>_.
     io_bind (read_words_with_crc self 2 (15 / 1000)) (\<lambda>words s.
       (let tvoc_baseline = words ! 0; eco2_baseline = words ! 1
        in (Inr (eco2_baseline, tvoc_baseline), s))))"

definition set_baseline ::
  "('s, 'x) SGP30 \<Rightarrow> int \<Rightarrow> int \<Rightarrow> 's \<Rightarrow> ('x error + unit) \<times> 's" where
  "set_baseline self eCO2 TVOC s =
     (if eCO2 = 0 \<and> TVOC = 0 then (Inl InvalidBaseline, s)
      else write_command self CMD_SET_IAQ_BASELINE [TVOC AND 0xFFFF, eCO2 AND 0xFFFF] s)"

text \<open>
  The argument \<open>grams_per_m3\<close> is a Python number: an integer, or a float, which is a
  finite rational, an infinity or a NaN.
\<close>

datatype number = PyInt int | PyFloat rat | PyInf | PyNegInf | PyNaN

text \<open>\<open>x <= 0\<close>: every comparison with a NaN is false.\<close>

fun number_le_zero :: "number \<Rightarrow> bool" where
  "number_le_zero (PyInt i) = (i \<le> 0)"
| "number_le_zero (PyFloat q) = (q \<le> 0)"
| "number_le_zero PyInf = False"
| "number_le_zero PyNegInf = True"
| "number_le_zero PyNaN = False"

text \<open>
  \<open>x * 256\<close>. On integers the product is exact. On a finite float of a binary format the
  product with 256 = 2^8 only moves the exponent: it is exact as long as it is a float,
  that is up to \<open>float_max\<close>, the largest finite float of the Python build (about 1.8e308
  with double precision, about 3.4e38 with single precision), and it is an infinity
  beyond. The build's float format is not part of the driver, so \<open>float_max\<close> is a
  parameter.
\<close>

fun number_times_256 :: "rat \<Rightarrow> number \<Rightarrow> number" where
  "number_times_256 float_max (PyInt i) = PyInt (i * 256)"
| "number_times_256 float_max (PyFloat q) =
     (if float_max < q * 256 then PyInf
      else if q * 256 < - float_max then PyNegInf
      else PyFloat (q * 256))"
| "number_times_256 float_max PyInf = PyInf"
| "number_times_256 float_max PyNegInf = PyNegInf"
| "number_times_256 float_max PyNaN = PyNaN"

text \<open>Python's \<open>int(x)\<close> on a finite float: truncation towards zero.\<close>

definition py_int :: "rat \<Rightarrow> int" where
  "py_int x = (if 0 \<le> x then \<lfloor>x\<rfloor> else \<lceil>x\<rceil>)"

text \<open>Python's \<open>int(x)\<close> on a number: it raises on an infinity and on a NaN.\<close>

fun int_of_number :: "number \<Rightarrow> 'x error + int" where
  "int_of_number (PyInt i) = Inr i"
| "int_of_number (PyFloat q) = Inr (py_int q)"
| "int_of_number PyInf = Inl IntOfInfinity"
| "int_of_number PyNegInf = Inl IntOfInfinity"
| "int_of_number PyNaN = Inl IntOfNaN"

definition set_absolute_humidity ::
  "('s, 'x) SGP30 \<Rightarrow> rat \<Rightarrow> number \<Rightarrow> 's \<Rightarrow> ('x error + unit) \<times> 's" where
  "set_absolute_humidity self float_max grams_per_m3 s =
     (if number_le_zero grams_per_m3 then (Inl InvalidHumidity, s)
      else case int_of_number (number_times_256 float_max grams_per_m3) of
             Inl e \<Rightarrow> (Inl e, s)
           | Inr n \<Rightarrow>
               (let val = n AND 0xFFFF;
                    val = (if val = 0 then 1 else val)
                in write_command self CMD_SET_ABSOLUTE_HUMIDITY [val] s))"

definition get_serial_id :: "('s, 'x) SGP30 \<Rightarrow> 's \<Rightarrow> ('x error + int) \<times> 's" where
  "get_serial_id self =
     io_bind (write_command self CMD_GET_SERIAL_ID []) (\<lambda>_.
     io_bind (read_words_with_crc self 3 (1 / 1000)) (\<lambda>words s.
       (Inr (push_bit 32 (words ! 0) OR push_bit 16 (words ! 1) OR words ! 2), s)))"

text \<open>\<open>try: ... except Exception: pass\<close>: whatever the write raised, the call returns.\<close>

definition soft_reset :: "('s, 'x) SGP30 \<Rightarrow> 's \<Rightarrow> ('x error + unit) \<times> 's" where
  "soft_reset self s =
     (case write_command self CMD_SOFT_RESET [] s of
        (Inl e, s') \<Rightarrow> (Inr (), s')
      | (Inr u, s') \<Rightarrow> (Inr (), s'))"

subsection \<open>The checksum algorithm in the words of the specification\<close>

text \<open>
  An 8-bit accumulator initialised to 0xFF; for each input byte, XOR it into the
  accumulator, then 8 times: if the top bit is set, shift left and XOR with 0x31,
  otherwise shift left; all within 8 bits. No final XOR.
\<close>

definition crc8_spec_shift :: "8 word \<Rightarrow> 8 word" where
  "crc8_spec_shift acc = (if bit acc 7 then push_bit 1 acc XOR 0x31 else push_bit 1 acc)"

definition crc8_spec :: "8 word list \<Rightarrow> 8 word" where
  "crc8_spec bs = foldl (\<lambda>acc b. (crc8_spec_shift ^^ 8) (acc XOR b)) 0xFF bs"

subsection \<open>The humidity encoding in the words of the specification\<close>

text \<open>\<open>round(value * 256)\<close> masked to 16 bits, a result of 0 clamped to 1.\<close>

definition humidity_word_spec :: "rat \<Rightarrow> int" where
  "humidity_word_spec v =
     (let val = round (v * 256) AND 0xFFFF in if val = 0 then 1 else val)"

subsection \<open>A recording bus, to run the driver on\<close>

text \<open>
  A test double for the I2C object: it logs every write, answers reads from a script
  (an exception or the bytes to return), raises \<open>write_error\<close> on every write when one
  is set, and logs the sleeps.
\<close>

record fake_bus =
  written :: "(int \<times> int list) list"
  answers :: "(nat + int list) list"
  write_error :: "nat option"
  slept :: "rat list"

definition fake_writeto :: "int \<Rightarrow> int list \<Rightarrow> fake_bus \<Rightarrow> (nat + unit) \<times> fake_bus" where
  "fake_writeto addr buf s =
     (case write_error s of
        Some x \<Rightarrow> (Inl x, s)
      | None \<Rightarrow> (Inr (), s\<lparr>written := written s @ [(addr, buf)]\<rparr>))"

definition fake_readfrom :: "int \<Rightarrow> int \<Rightarrow> fake_bus \<Rightarrow> (nat + int list) \<times> fake_bus" where
  "fake_readfrom addr count s =
     (case answers s of
        [] \<Rightarrow> (Inr [], s)
      | r # rs \<Rightarrow> (r, s\<lparr>answers := rs\<rparr>))"

definition fake_sleep :: "rat \<Rightarrow> fake_bus \<Rightarrow> fake_bus" where
  "fake_sleep d s = s\<lparr>slept := slept s @ [d]\<rparr>"

definition fake_sgp30 :: "(fake_bus, nat) SGP30" where
  "fake_sgp30 =
     \<lparr>writeto = fake_writeto, readfrom = fake_readfrom, sleep = fake_sleep, address = 0x58\<rparr>"

text \<open>The largest finite float of a single-precision build, 2^128 - 2^104.\<close>

definition float_max_single :: rat where
  "float_max_single = 2 ^ 128 - 2 ^ 104"

definition fake_world :: "(nat + int list) list \<Rightarrow> nat option \<Rightarrow> fake_bus" where
  "fake_world script werr = \<lparr>written = [], answers = script, write_error = werr, slept = []\<rparr>"

section \<open>Checksum engine\<close>

lemma and_0x80_iff: "(c::int) AND 0x80 \<noteq> 0 \<longleftrightarrow> bit c 7"
proof -
  have "(0x80::int) = 2 ^ 7" by simp
  then show ?thesis by (simp only: and_exp_eq_0_iff_not_bit) simp
qed

lemma and_0xFF_eq: "(c::int) AND 0xFF = take_bit 8 c"
proof -
  have "(0xFF::int) = mask 8" by (simp add: mask_eq_exp_minus_1)
  then show ?thesis by (simp only: take_bit_eq_mask)
qed

lemma uint_double: "uint ((word_of_int c :: 8 word) * 2) = take_bit 8 (c * 2)"
proof -
  have "(word_of_int c :: 8 word) * 2 = word_of_int (c * 2)" by simp
  then show ?thesis by (simp only: uint_word_of_int_eq) simp
qed

lemma crc8_shift_refines: "crc8_shift c = uint (crc8_spec_shift (word_of_int c))"
  by (simp add: crc8_shift_def crc8_spec_shift_def and_0x80_iff and_0xFF_eq
      uint_xor bit_word_of_int_iff uint_double)

lemma uint8_le: "uint (w :: 8 word) \<le> 255"
  using uint_lt2p [of w] by simp

lemma crc8_range_refines:
  "crc8_range (Suc k) c = uint ((crc8_spec_shift ^^ Suc k) (word_of_int c))"
proof (induction k arbitrary: c)
  case 0
  show ?case by (simp add: crc8_shift_refines)
next
  case (Suc k)
  have "crc8_range (Suc (Suc k)) c = crc8_range (Suc k) (crc8_shift c)"
    by simp
  also have "\<dots> = uint ((crc8_spec_shift ^^ Suc k) (word_of_int (crc8_shift c)))"
    by (rule Suc.IH)
  also have "word_of_int (crc8_shift c) = crc8_spec_shift (word_of_int c)"
    by (simp add: crc8_shift_refines)
  finally show ?case by (simp add: funpow_swap1)
qed

lemma crc8_range8_refines:
  "crc8_range 8 c = uint ((crc8_spec_shift ^^ 8) (word_of_int c))"
  using crc8_range_refines [of 7 c] by (simp add: eval_nat_numeral)

lemma crc8_loop_refines:
  "crc8_loop (uint w) data =
     uint (foldl (\<lambda>acc b. (crc8_spec_shift ^^ 8) (acc XOR b)) w (map word_of_int data))"
proof (induction data arbitrary: w)
  case Nil
  show ?case by simp
next
  case (Cons byte data)
  have "word_of_int (uint w XOR byte) = w XOR (word_of_int byte :: 8 word)"
    by (simp add: of_int_xor_eq)
  then have "crc8_range 8 (uint w XOR byte)
      = uint ((crc8_spec_shift ^^ 8) (w XOR word_of_int byte))"
    by (simp only: crc8_range8_refines)
  then show ?case by (simp only: crc8_loop.simps Cons.IH list.map foldl_Cons)
qed

lemma crc8_refines: "crc8 data = uint (crc8_spec (map word_of_int data))"
  using crc8_loop_refines [of 255 data] by (simp add: crc8_def crc8_spec_def)

lemma crc8_byte: "0 \<le> crc8 data \<and> crc8 data \<le> 255"
  by (simp add: crc8_refines uint8_le)

text \<open>
  Claim C1. For every sequence of integers \<open>b\<close> (so for every byte sequence), \<open>_crc8(b)\<close>
  is a byte in [0,255] and is the value of the CRC-8 algorithm of the specification
  (polynomial 0x31, initial accumulator 0xFF, MSB first, no final XOR) run on the bytes
  of \<open>b\<close> in an 8-bit accumulator; the empty sequence gives 0xFF and [0xBE, 0xEF] gives
  0x92.
\<close>

theorem crc8_is_sensirion_crc:
  "0 \<le> crc8 b \<and> crc8 b \<le> 255
   \<and> crc8 b = uint (crc8_spec (map word_of_int b))
   \<and> crc8 [] = 0xFF
   \<and> crc8 [0xBE, 0xEF] = 0x92"
proof -
  have "crc8 [] = 0xFF" by (simp add: crc8_def)
  moreover have "crc8 [0xBE, 0xEF] = 0x92" by code_simp
  ultimately show ?thesis using crc8_byte [of b] crc8_refines [of b] by simp
qed

section \<open>Transport framer\<close>

lemmas fake_defs = fake_sgp30_def fake_world_def fake_writeto_def fake_readfrom_def
  fake_sleep_def read_bytes_def write_command_def bus_call_def cmd_to_bytes_def

lemma word_reassemble:
  "push_bit 8 (drop_bit 8 w AND 0xFF) OR (w AND 0xFF) = take_bit 16 (w::int)"
  unfolding and_0xFF_eq
  by (rule bit_eqI) (auto simp add: bit_or_iff bit_push_bit_iff bit_take_bit_iff bit_drop_bit_eq)

lemma take_bit_16_id: "0 \<le> w \<Longrightarrow> w \<le> 0xFFFF \<Longrightarrow> take_bit 16 (w::int) = w"
  by (simp add: take_bit_int_eq_self)

lemma extend_args_one:
  "extend_args buf [w] =
     buf @ [drop_bit 8 w AND 0xFF, w AND 0xFF, crc8 [drop_bit 8 w AND 0xFF, w AND 0xFF]]"
  by (simp add: Let_def)

lemma read_words_loop_eq:
  "(read_words_loop raw idx words :: 'x error + int list) =
     (if \<forall>i\<in>set idx. crc8 [raw ! (i * 3), raw ! (i * 3 + 1)] = raw ! (i * 3 + 2)
      then Inr (words @ map (\<lambda>i. push_bit 8 (raw ! (i * 3)) OR raw ! (i * 3 + 1)) idx)
      else Inl CRCMismatch)"
  by (induction idx arbitrary: words) (simp_all add: Let_def)

lemma read_words_with_crc_eq:
  assumes "read_bytes self (n_words * 3) delay s = (Inr raw, s')"
  shows "read_words_with_crc self n_words delay s =
     (if int (length raw) \<noteq> n_words * 3
       then Inl (FramingLength (n_words * 3) (int (length raw)))
       else read_words_loop raw [0..<nat n_words] [], s')"
  using assms by (simp add: read_words_with_crc_def io_bind_def)

lemma read_words_loop_group:
  "crc8 [a, b] = c \<Longrightarrow>
     (read_words_loop [a, b, c] [0..<nat 1] [] :: 'x error + int list) = Inr [push_bit 8 a OR b]"
  by simp

lemma read_one_roundtrip:
  fixes self :: "('s, 'x) SGP30"
  assumes "0 \<le> w" and "w \<le> 0xFFFF"
    and rb: "read_bytes self (1 * 3) delay s = (Inr (extend_args [] [w]), s')"
  shows "read_words_with_crc self 1 delay s = (Inr [w], s')"
proof -
  have key: "push_bit 8 (drop_bit 8 w AND 0xFF) OR (w AND 0xFF) = w"
    using assms(1,2) by (simp only: word_reassemble take_bit_16_id)
  have "read_words_with_crc self 1 delay s =
      (if int (length (extend_args [] [w])) \<noteq> 1 * 3
       then Inl (FramingLength (1 * 3) (int (length (extend_args [] [w]))))
       else read_words_loop (extend_args [] [w]) [0..<nat 1] [], s')"
    by (rule read_words_with_crc_eq [OF rb])
  also have "\<dots> = (Inr [w], s')"
    by (simp only: extend_args_one append_Nil read_words_loop_group [OF refl] key) simp
  finally show ?thesis .
qed

text \<open>
  Claim C2. For every 16-bit word \<open>w\<close> in [0, 0xFFFF]: when the bus read returns the
  3-byte group that the write path builds for \<open>w\<close> (high byte, low byte, checksum of the
  two), the read path succeeds and returns exactly \<open>w\<close>.
\<close>

theorem word_group_roundtrip:
  fixes self :: "('s, 'x) SGP30"
  assumes "0 \<le> w" and "w \<le> 0xFFFF"
    and "read_bytes self (1 * 3) delay s = (Inr (extend_args [] [w]), s')"
  shows "read_words_with_crc self 1 delay s = (Inr [w], s')"
  using assms by (rule read_one_roundtrip)

theorem word_group_roundtrip_witness:
  "(0::int) \<le> 0xBEEF \<and> (0xBEEF::int) \<le> 0xFFFF
   \<and> extend_args [] [0xBEEF] = [0xBE, 0xEF, 0x92]
   \<and> read_bytes fake_sgp30 (1 * 3) (1 / 1000) (fake_world [Inr (extend_args [] [0xBEEF])] None)
       = (Inr (extend_args [] [0xBEEF]), (fake_world [] None)\<lparr>slept := [1 / 1000]\<rparr>)
   \<and> read_words_with_crc fake_sgp30 1 (1 / 1000) (fake_world [Inr (extend_args [] [0xBEEF])] None)
       = (Inr [0xBEEF], (fake_world [] None)\<lparr>slept := [1 / 1000]\<rparr>)"
proof -
  have c: "crc8 [0xBE, 0xEF] = 0x92" by code_simp
  have e: "extend_args [] [0xBEEF] = [0xBE, 0xEF, 0x92]"
    by (simp add: Let_def c)
  have r: "read_bytes fake_sgp30 (1 * 3) (1 / 1000) (fake_world [Inr (extend_args [] [0xBEEF])] None)
       = (Inr (extend_args [] [0xBEEF]), (fake_world [] None)\<lparr>slept := [1 / 1000]\<rparr>)"
    by (simp add: fake_defs)
  show ?thesis
    using word_group_roundtrip [of "0xBEEF", OF _ _ r] e r by simp
qed

text \<open>
  Claim C3. When the bus read returns a buffer of the requested length \<open>n_words * 3\<close>,
  the read path compares, for every group \<open>i\<close>, the checksum of bytes \<open>3i\<close> and \<open>3i+1\<close>
  with byte \<open>3i+2\<close>. If all groups match, the result is the list of all \<open>n_words\<close> words
  \<open>(raw[3i] << 8) | raw[3i+1]\<close>; if any group mismatches, the result is the CRC error and
  no word is returned.
\<close>

theorem read_words_crc_all_or_nothing:
  fixes self :: "('s, 'x) SGP30"
  assumes "read_bytes self (n_words * 3) delay s = (Inr raw, s')"
    and "int (length raw) = n_words * 3"
  shows "read_words_with_crc self n_words delay s =
     (if \<forall>i<nat n_words. crc8 [raw ! (i * 3), raw ! (i * 3 + 1)] = raw ! (i * 3 + 2)
      then Inr (map (\<lambda>i. push_bit 8 (raw ! (i * 3)) OR raw ! (i * 3 + 1)) [0..<nat n_words])
      else Inl CRCMismatch, s')"
  using assms by (simp add: read_words_with_crc_eq read_words_loop_eq)

theorem read_words_crc_all_or_nothing_witness:
  "read_bytes fake_sgp30 (2 * 3) (15 / 1000) (fake_world [Inr [0, 100, 254, 0, 200, 0]] None)
       = (Inr [0, 100, 254, 0, 200, 0], (fake_world [] None)\<lparr>slept := [15 / 1000]\<rparr>)
   \<and> int (length [0, 100, 254, 0, 200, 0 :: int]) = 2 * 3
   \<and> crc8 [0, 100] = 254 \<and> crc8 [0, 200] \<noteq> 0
   \<and> read_words_with_crc fake_sgp30 2 (15 / 1000) (fake_world [Inr [0, 100, 254, 0, 200, 0]] None)
       = (Inl CRCMismatch, (fake_world [] None)\<lparr>slept := [15 / 1000]\<rparr>)"
proof -
  have r: "read_bytes fake_sgp30 (2 * 3) (15 / 1000) (fake_world [Inr [0, 100, 254, 0, 200, 0]] None)
       = (Inr [0, 100, 254, 0, 200, 0], (fake_world [] None)\<lparr>slept := [15 / 1000]\<rparr>)"
    by (simp add: fake_defs)
  have l: "int (length [0, 100, 254, 0, 200, 0 :: int]) = 2 * 3" by simp
  have c0: "crc8 [0, 100] = 254" by code_simp
  have c: "crc8 [0, 200] = 127" by code_simp
  have n: "\<not> (\<forall>i<nat 2. crc8 [[0, 100, 254, 0, 200, 0] ! (i * 3), [0, 100, 254, 0, 200, 0] ! (i * 3 + 1)]
          = [0, 100, 254, 0, 200, 0] ! (i * 3 + 2))"
    using c by (auto intro!: exI [of _ 1])
  show ?thesis
    using read_words_crc_all_or_nothing [OF r l] r n c0 c by simp
qed

text \<open>
  Claim C4. When the bus read returns a byte sequence whose length differs from
  \<open>n_words * 3\<close>, the read path fails with the framing-length error (and so returns no
  words); it returns words only when the length is exactly \<open>n_words * 3\<close>.
\<close>

theorem read_words_framing_length:
  fixes self :: "('s, 'x) SGP30"
  assumes "read_bytes self (n_words * 3) delay s = (Inr raw, s')"
  shows "(int (length raw) \<noteq> n_words * 3 \<longrightarrow>
            read_words_with_crc self n_words delay s =
              (Inl (FramingLength (n_words * 3) (int (length raw))), s'))
       \<and> (\<forall>ws. fst (read_words_with_crc self n_words delay s) = Inr ws \<longrightarrow>
            int (length raw) = n_words * 3)"
  using assms by (simp add: read_words_with_crc_eq)

theorem read_words_framing_length_witness:
  "read_bytes fake_sgp30 (2 * 3) (15 / 1000) (fake_world [Inr [0, 100, 254, 0, 200]] None)
       = (Inr [0, 100, 254, 0, 200], (fake_world [] None)\<lparr>slept := [15 / 1000]\<rparr>)
   \<and> int (length [0, 100, 254, 0, 200 :: int]) \<noteq> 2 * 3
   \<and> read_words_with_crc fake_sgp30 2 (15 / 1000) (fake_world [Inr [0, 100, 254, 0, 200]] None)
       = (Inl (FramingLength 6 5), (fake_world [] None)\<lparr>slept := [15 / 1000]\<rparr>)"
proof -
  have r: "read_bytes fake_sgp30 (2 * 3) (15 / 1000) (fake_world [Inr [0, 100, 254, 0, 200]] None)
       = (Inr [0, 100, 254, 0, 200], (fake_world [] None)\<lparr>slept := [15 / 1000]\<rparr>)"
    by (simp add: fake_defs)
  show ?thesis
    using read_words_framing_length [OF r] r by simp
qed

section \<open>Command protocol layer\<close>

lemma hi_mask: "drop_bit 8 (v AND 0xFFFF) AND 0xFF = drop_bit 8 (v::int) AND 0xFF"
proof -
  have "(0xFFFF::int) = mask 16" by (simp add: mask_eq_exp_minus_1)
  then have "v AND 0xFFFF = take_bit 16 v" by (simp only: take_bit_eq_mask)
  then show ?thesis
    unfolding and_0xFF_eq
    by (simp only:) (rule bit_eqI, auto simp add: bit_take_bit_iff bit_drop_bit_eq)
qed

lemma lo_mask: "(v AND 0xFFFF) AND 0xFF = (v::int) AND 0xFF"
proof -
  have "(0xFFFF::int) AND 0xFF = 0xFF" by simp
  then show ?thesis by (simp only: and.assoc)
qed

lemma extend_args_two:
  "extend_args buf [v, w] =
     buf @ [drop_bit 8 v AND 0xFF, v AND 0xFF, crc8 [drop_bit 8 v AND 0xFF, v AND 0xFF],
            drop_bit 8 w AND 0xFF, w AND 0xFF, crc8 [drop_bit 8 w AND 0xFF, w AND 0xFF]]"
  by (simp add: Let_def)

lemma extend_args_two_masked:
  "extend_args buf [v AND 0xFFFF, w AND 0xFFFF] = extend_args buf [v, w]"
  by (simp only: extend_args_two hi_mask lo_mask)

lemma write_command_eq:
  "write_command self cmd arguments s =
     bus_call (writeto self (address self) (extend_args (cmd_to_bytes cmd) arguments) s)"
  by (simp add: write_command_def)

lemma bus_call_not_driver_error:
  "fst (bus_call r) \<noteq> Inl InvalidBaseline"
  by (simp add: bus_call_def split: prod.split sum.split)

lemma read_words_loop_pair:
  "crc8 [a0, b0] = c0 \<Longrightarrow> crc8 [a1, b1] = c1 \<Longrightarrow>
     (read_words_loop [a0, b0, c0, a1, b1, c1] [0..<nat 2] [] :: 'x error + int list)
       = Inr [push_bit 8 a0 OR b0, push_bit 8 a1 OR b1]"
  by (simp add: upt_rec)

lemma read_pair_roundtrip:
  fixes self :: "('s, 'x) SGP30"
  assumes "0 \<le> w0" "w0 \<le> 0xFFFF" "0 \<le> w1" "w1 \<le> 0xFFFF"
    and rb: "read_bytes self (2 * 3) delay s = (Inr (extend_args [] [w0, w1]), s')"
  shows "read_words_with_crc self 2 delay s = (Inr [w0, w1], s')"
proof -
  have k0: "push_bit 8 (drop_bit 8 w0 AND 0xFF) OR (w0 AND 0xFF) = w0"
    using assms(1,2) by (simp only: word_reassemble take_bit_16_id)
  have k1: "push_bit 8 (drop_bit 8 w1 AND 0xFF) OR (w1 AND 0xFF) = w1"
    using assms(3,4) by (simp only: word_reassemble take_bit_16_id)
  have "read_words_with_crc self 2 delay s =
      (if int (length (extend_args [] [w0, w1])) \<noteq> 2 * 3
       then Inl (FramingLength (2 * 3) (int (length (extend_args [] [w0, w1]))))
       else read_words_loop (extend_args [] [w0, w1]) [0..<nat 2] [], s')"
    by (rule read_words_with_crc_eq [OF rb])
  also have "\<dots> = (Inr [w0, w1], s')"
    by (simp only: extend_args_two append_Nil read_words_loop_pair [OF refl refl] k0 k1) simp
  finally show ?thesis .
qed

lemma crc8_0_200: "crc8 [0, 200] = 127"
  by code_simp

lemma crc8_0_100: "crc8 [0, 100] = 254"
  by code_simp

lemma crc8_0_0: "crc8 [0, 0] = 0x81"
  by code_simp

lemma crc8_D4_00: "crc8 [0xD4, 0] = 0xC6"
  by code_simp

text \<open>
  Claim C5. The wire order of the baseline is the reverse of the logical (eCO2, TVOC)
  order in both directions. For every pair that passes the validation, the frame that
  \<open>set_baseline\<close> writes is the opcode, then the 3-byte group of TVOC, then the 3-byte
  group of eCO2. For every pair of 16-bit words \<open>(w0, w1)\<close>: when the command write
  succeeds and the bus read returns the group of \<open>w0\<close> followed by the group of \<open>w1\<close>,
  \<open>get_baseline\<close> returns (eCO2, TVOC) = \<open>(w1, w0)\<close>.
\<close>

theorem baseline_wire_order:
  fixes self :: "('s, 'x) SGP30"
  shows "(eCO2 \<noteq> 0 \<or> TVOC \<noteq> 0 \<longrightarrow>
            set_baseline self eCO2 TVOC s =
              bus_call (writeto self (address self)
                ([0x20, 0x1E] @ extend_args [] [TVOC] @ extend_args [] [eCO2]) s))
       \<and> (0 \<le> w0 \<and> w0 \<le> 0xFFFF \<and> 0 \<le> w1 \<and> w1 \<le> 0xFFFF
            \<and> write_command self CMD_GET_IAQ_BASELINE [] s = (Inr (), s1)
            \<and> read_bytes self (2 * 3) (15 / 1000) s1
                = (Inr (extend_args [] [w0] @ extend_args [] [w1]), s2) \<longrightarrow>
            get_baseline self s = (Inr (w1, w0), s2))"
proof (intro conjI impI)
  assume "eCO2 \<noteq> 0 \<or> TVOC \<noteq> 0"
  then have "set_baseline self eCO2 TVOC s =
      write_command self CMD_SET_IAQ_BASELINE [TVOC AND 0xFFFF, eCO2 AND 0xFFFF] s"
    by (auto simp add: set_baseline_def)
  also have "\<dots> = bus_call (writeto self (address self)
                ([0x20, 0x1E] @ extend_args [] [TVOC] @ extend_args [] [eCO2]) s)"
    by (simp only: write_command_eq extend_args_two_masked)
      (simp only: extend_args_two extend_args_one cmd_to_bytes_def CMD_SET_IAQ_BASELINE_def,
        simp)
  finally show "set_baseline self eCO2 TVOC s =
              bus_call (writeto self (address self)
                ([0x20, 0x1E] @ extend_args [] [TVOC] @ extend_args [] [eCO2]) s)" .
next
  assume h: "0 \<le> w0 \<and> w0 \<le> 0xFFFF \<and> 0 \<le> w1 \<and> w1 \<le> 0xFFFF
            \<and> write_command self CMD_GET_IAQ_BASELINE [] s = (Inr (), s1)
            \<and> read_bytes self (2 * 3) (15 / 1000) s1
                = (Inr (extend_args [] [w0] @ extend_args [] [w1]), s2)"
  have "extend_args [] [w0] @ extend_args [] [w1] = extend_args [] [w0, w1]"
    by (simp only: extend_args_two extend_args_one) simp
  with h have rb: "read_bytes self (2 * 3) (15 / 1000) s1 = (Inr (extend_args [] [w0, w1]), s2)"
    by simp
  have "read_words_with_crc self 2 (15 / 1000) s1 = (Inr [w0, w1], s2)"
    using h by (intro read_pair_roundtrip [OF _ _ _ _ rb]) simp_all
  with h show "get_baseline self s = (Inr (w1, w0), s2)"
    by (simp add: get_baseline_def io_bind_def)
qed


theorem baseline_wire_order_witness:
  "set_baseline fake_sgp30 100 200 (fake_world [] None)
       = (Inr (), (fake_world [] None)\<lparr>written := [(0x58, [0x20, 0x1E, 0, 200, 127, 0, 100, 254])]\<rparr>)
   \<and> write_command fake_sgp30 CMD_GET_IAQ_BASELINE [] (fake_world [Inr [0, 200, 127, 0, 100, 254]] None)
       = (Inr (), (fake_world [Inr [0, 200, 127, 0, 100, 254]] None)\<lparr>written := [(0x58, [0x20, 0x15])]\<rparr>)
   \<and> read_bytes fake_sgp30 (2 * 3) (15 / 1000)
         ((fake_world [Inr [0, 200, 127, 0, 100, 254]] None)\<lparr>written := [(0x58, [0x20, 0x15])]\<rparr>)
       = (Inr (extend_args [] [200] @ extend_args [] [100]),
          (fake_world [] None)\<lparr>written := [(0x58, [0x20, 0x15])], slept := [15 / 1000]\<rparr>)
   \<and> get_baseline fake_sgp30 (fake_world [Inr [0, 200, 127, 0, 100, 254]] None)
       = (Inr (100, 200),
          (fake_world [] None)\<lparr>written := [(0x58, [0x20, 0x15])], slept := [15 / 1000]\<rparr>)"
proof -
  have e: "extend_args [] [200] = [0, 200, 127]" "extend_args [] [100] = [0, 100, 254]"
    by (simp_all add: Let_def crc8_0_200 crc8_0_100)
  have w: "write_command fake_sgp30 CMD_GET_IAQ_BASELINE [] (fake_world [Inr [0, 200, 127, 0, 100, 254]] None)
       = (Inr (), (fake_world [Inr [0, 200, 127, 0, 100, 254]] None)\<lparr>written := [(0x58, [0x20, 0x15])]\<rparr>)"
    by (simp add: fake_defs CMD_GET_IAQ_BASELINE_def)
  have r: "read_bytes fake_sgp30 (2 * 3) (15 / 1000)
         ((fake_world [Inr [0, 200, 127, 0, 100, 254]] None)\<lparr>written := [(0x58, [0x20, 0x15])]\<rparr>)
       = (Inr (extend_args [] [200] @ extend_args [] [100]),
          (fake_world [] None)\<lparr>written := [(0x58, [0x20, 0x15])], slept := [15 / 1000]\<rparr>)"
    by (simp only: e) (simp add: fake_defs)
  have set: "set_baseline fake_sgp30 100 200 (fake_world [] None)
       = (Inr (), (fake_world [] None)\<lparr>written := [(0x58, [0x20, 0x1E, 0, 200, 127, 0, 100, 254])]\<rparr>)"
    using baseline_wire_order [where ?eCO2.0 = 100 and TVOC = 200 and self = fake_sgp30
        and s = "fake_world [] None", THEN conjunct1]
    by (simp only: e) (simp add: fake_defs)
  have get: "get_baseline fake_sgp30 (fake_world [Inr [0, 200, 127, 0, 100, 254]] None)
       = (Inr (100, 200),
          (fake_world [] None)\<lparr>written := [(0x58, [0x20, 0x15])], slept := [15 / 1000]\<rparr>)"
    using baseline_wire_order [where ?w0.0 = 200 and ?w1.0 = 100 and self = fake_sgp30
        and s = "fake_world [Inr [0, 200, 127, 0, 100, 254]] None", THEN conjunct2] w r
    by (simp only: e) simp
  show ?thesis using set get w r by (simp add: e del: extend_args.simps)
qed

text \<open>
  Claim C7. For (eCO2, TVOC) = (0, 0), \<open>set_baseline\<close> raises the invalid-baseline error
  and leaves the world as it was, whatever the bus is: no bus call is made. For every
  pair with a nonzero component the result is that of the single bus write of the
  command frame, and it is never the invalid-baseline error.
\<close>

theorem set_baseline_both_zero:
  fixes self :: "('s, 'x) SGP30"
  shows "set_baseline self 0 0 s = (Inl InvalidBaseline, s)
       \<and> (eCO2 \<noteq> 0 \<or> TVOC \<noteq> 0 \<longrightarrow>
            set_baseline self eCO2 TVOC s =
              bus_call (writeto self (address self)
                (extend_args [0x20, 0x1E] [TVOC AND 0xFFFF, eCO2 AND 0xFFFF]) s)
            \<and> fst (set_baseline self eCO2 TVOC s) \<noteq> Inl InvalidBaseline)"
proof (intro conjI impI)
  show "set_baseline self 0 0 s = (Inl InvalidBaseline, s)"
    by (simp add: set_baseline_def)
next
  assume "eCO2 \<noteq> 0 \<or> TVOC \<noteq> 0"
  then show w: "set_baseline self eCO2 TVOC s =
              bus_call (writeto self (address self)
                (extend_args [0x20, 0x1E] [TVOC AND 0xFFFF, eCO2 AND 0xFFFF]) s)"
    by (auto simp add: set_baseline_def write_command_eq cmd_to_bytes_def CMD_SET_IAQ_BASELINE_def)
  show "fst (set_baseline self eCO2 TVOC s) \<noteq> Inl InvalidBaseline"
    by (simp only: w bus_call_not_driver_error) simp
qed

theorem set_baseline_both_zero_witness:
  "set_baseline fake_sgp30 0 0 (fake_world [] None) = (Inl InvalidBaseline, fake_world [] None)
   \<and> written (snd (set_baseline fake_sgp30 0 0 (fake_world [] None))) = []
   \<and> set_baseline fake_sgp30 0 200 (fake_world [] None)
       = (Inr (), (fake_world [] None)\<lparr>written := [(0x58, [0x20, 0x1E, 0, 200, 127, 0, 0, 0x81])]\<rparr>)"
proof -
  have e: "extend_args [0x20, 0x1E] [200 AND 0xFFFF, 0 AND 0xFFFF]
      = [0x20, 0x1E, 0, 200, 127, 0, 0, 0x81]"
    by (simp add: Let_def crc8_0_200 crc8_0_0)
  have z: "set_baseline fake_sgp30 0 0 (fake_world [] None) = (Inl InvalidBaseline, fake_world [] None)"
    using set_baseline_both_zero [where self = fake_sgp30 and s = "fake_world [] None", THEN conjunct1] .
  have n: "set_baseline fake_sgp30 0 200 (fake_world [] None)
       = (Inr (), (fake_world [] None)\<lparr>written := [(0x58, [0x20, 0x1E, 0, 200, 127, 0, 0, 0x81])]\<rparr>)"
    using set_baseline_both_zero [where self = fake_sgp30 and s = "fake_world [] None"
        and ?eCO2.0 = 0 and TVOC = 200, THEN conjunct2]
    by (simp only: e) (simp add: fake_defs)
  show ?thesis using z n by (simp add: fake_world_def)
qed

text \<open>
  Claim C8. For every 16-bit word \<open>w\<close>: when the command write succeeds and the bus read
  returns the 3-byte group of \<open>w\<close>, \<open>measure_test\<close> returns normally, with \<open>True\<close> if and
  only if \<open>w\<close> is 0xD400.
\<close>

theorem measure_test_pass_iff:
  fixes self :: "('s, 'x) SGP30"
  assumes "0 \<le> w" and "w \<le> 0xFFFF"
    and "write_command self CMD_MEASURE_TEST [] s = (Inr (), s1)"
    and "read_bytes self (1 * 3) (2 / 10) s1 = (Inr (extend_args [] [w]), s2)"
  shows "measure_test self s = (Inr (w = 0xD400), s2)"
proof -
  have "read_words_with_crc self 1 (2 / 10) s1 = (Inr [w], s2)"
    by (rule read_one_roundtrip [OF assms(1,2,4)])
  with assms(3) show ?thesis
    by (simp add: measure_test_def io_bind_def)
qed

theorem measure_test_pass_iff_witness:
  "(0::int) \<le> 0xD400 \<and> (0xD400::int) \<le> 0xFFFF
   \<and> write_command fake_sgp30 CMD_MEASURE_TEST [] (fake_world [Inr [0xD4, 0, 0xC6]] None)
       = (Inr (), (fake_world [Inr [0xD4, 0, 0xC6]] None)\<lparr>written := [(0x58, [0x20, 0x32])]\<rparr>)
   \<and> read_bytes fake_sgp30 (1 * 3) (2 / 10)
         ((fake_world [Inr [0xD4, 0, 0xC6]] None)\<lparr>written := [(0x58, [0x20, 0x32])]\<rparr>)
       = (Inr (extend_args [] [0xD400]),
          (fake_world [] None)\<lparr>written := [(0x58, [0x20, 0x32])], slept := [2 / 10]\<rparr>)
   \<and> measure_test fake_sgp30 (fake_world [Inr [0xD4, 0, 0xC6]] None)
       = (Inr True, (fake_world [] None)\<lparr>written := [(0x58, [0x20, 0x32])], slept := [2 / 10]\<rparr>)
   \<and> measure_test fake_sgp30 (fake_world [Inr [0, 200, 127]] None)
       = (Inr False, (fake_world [] None)\<lparr>written := [(0x58, [0x20, 0x32])], slept := [2 / 10]\<rparr>)"
proof -
  have e: "extend_args [] [0xD400] = [0xD4, 0, 0xC6]" "extend_args [] [200] = [0, 200, 127]"
    by (simp_all add: Let_def crc8_D4_00 crc8_0_200)
  have w: "write_command fake_sgp30 CMD_MEASURE_TEST [] (fake_world a None)
       = (Inr (), (fake_world a None)\<lparr>written := [(0x58, [0x20, 0x32])]\<rparr>)" for a
    by (simp add: fake_defs CMD_MEASURE_TEST_def)
  have r: "read_bytes fake_sgp30 (1 * 3) (2 / 10)
         ((fake_world [Inr g] None)\<lparr>written := [(0x58, [0x20, 0x32])]\<rparr>)
       = (Inr g, (fake_world [] None)\<lparr>written := [(0x58, [0x20, 0x32])], slept := [2 / 10]\<rparr>)" for g
    by (simp add: fake_defs)
  have p: "measure_test fake_sgp30 (fake_world [Inr [0xD4, 0, 0xC6]] None)
       = (Inr True, (fake_world [] None)\<lparr>written := [(0x58, [0x20, 0x32])], slept := [2 / 10]\<rparr>)"
    using measure_test_pass_iff [of "0xD400", OF _ _ w r [of "extend_args [] [0xD400]"]]
    by (simp only: e) simp
  have f: "measure_test fake_sgp30 (fake_world [Inr [0, 200, 127]] None)
       = (Inr False, (fake_world [] None)\<lparr>written := [(0x58, [0x20, 0x32])], slept := [2 / 10]\<rparr>)"
    using measure_test_pass_iff [of "200", OF _ _ w r [of "extend_args [] [200]"]]
    by (simp only: e) simp
  show ?thesis using p f w r [of "[0xD4, 0, 0xC6]"] by (simp only: e) simp
qed

text \<open>
  Claim C10. \<open>set_baseline\<close> masks its arguments to 16 bits only after the both-zero
  check: for (eCO2, TVOC) = (0x10000, 0) the check passes and the frame written carries
  the word pair (0, 0), the payload that the check rejects when given directly.
\<close>

theorem set_baseline_masks_after_check:
  fixes self :: "('s, 'x) SGP30"
  shows "set_baseline self 0x10000 0 s = write_command self CMD_SET_IAQ_BASELINE [0, 0] s
       \<and> set_baseline self 0x10000 0 s =
           bus_call (writeto self (address self) [0x20, 0x1E, 0, 0, 0x81, 0, 0, 0x81] s)
       \<and> set_baseline self 0 0 s = (Inl InvalidBaseline, s)"
  by (simp add: set_baseline_def write_command_eq cmd_to_bytes_def CMD_SET_IAQ_BASELINE_def
      Let_def crc8_0_0)


lemma and_0xFFFF_eq: "(x::int) AND 0xFFFF = x mod 65536"
proof -
  have "(0xFFFF::int) = mask 16" by (simp add: mask_eq_exp_minus_1)
  then have "x AND 0xFFFF = take_bit 16 x" by (simp only: take_bit_eq_mask)
  then show ?thesis by (simp add: take_bit_eq_mod)
qed

lemma py_int_pos: "0 < x \<Longrightarrow> py_int x = \<lfloor>x\<rfloor>"
  by (simp add: py_int_def)

lemma crc8_0_1: "crc8 [0, 1] = 0xB0"
  by code_simp

lemma crc8_0A_00: "crc8 [0x0A, 0] = 0x6F"
  by code_simp

lemma set_absolute_humidity_word:
  fixes self :: "('s, 'x) SGP30"
  assumes "\<not> number_le_zero v"
    and "(int_of_number (number_times_256 float_max v) :: 'x error + int) = Inr n"
  shows "set_absolute_humidity self float_max v s =
     bus_call (writeto self (address self)
       (extend_args [0x20, 0x61] [if n mod 65536 = 0 then 1 else n mod 65536]) s)"
  using assms
  by (simp add: set_absolute_humidity_def write_command_eq cmd_to_bytes_def
      CMD_SET_ABSOLUTE_HUMIDITY_def Let_def and_0xFFFF_eq del: extend_args.simps)

lemma int_of_float_times_256:
  assumes "0 < g" and "g * 256 \<le> float_max"
  shows "(int_of_number (number_times_256 float_max (PyFloat g)) :: 'x error + int)
           = Inr \<lfloor>g * 256\<rfloor>"
proof -
  from assms have "0 < g * 256" "\<not> float_max < g * 256" "\<not> g * 256 < - float_max"
    by simp_all
  then show ?thesis by (simp add: py_int_pos)
qed

lemma set_absolute_humidity_float:
  fixes self :: "('s, 'x) SGP30"
  assumes "0 < g" and "g * 256 \<le> float_max"
  shows "set_absolute_humidity self float_max (PyFloat g) s =
     bus_call (writeto self (address self)
       (extend_args [0x20, 0x61]
          [if \<lfloor>g * 256\<rfloor> mod 65536 = 0 then 1 else \<lfloor>g * 256\<rfloor> mod 65536]) s)"
proof (rule set_absolute_humidity_word)
  show "\<not> number_le_zero (PyFloat g)" using assms(1) by simp
  show "(int_of_number (number_times_256 float_max (PyFloat g)) :: 'x error + int)
           = Inr \<lfloor>g * 256\<rfloor>"
    using assms by (rule int_of_float_times_256)
qed

lemma set_absolute_humidity_int:
  fixes self :: "('s, 'x) SGP30"
  assumes "0 < i"
  shows "set_absolute_humidity self float_max (PyInt i) s =
     bus_call (writeto self (address self)
       (extend_args [0x20, 0x61]
          [if (i * 256) mod 65536 = 0 then 1 else (i * 256) mod 65536]) s)"
proof (rule set_absolute_humidity_word)
  show "\<not> number_le_zero (PyInt i)" using assms by simp
  show "(int_of_number (number_times_256 float_max (PyInt i)) :: 'x error + int) = Inr (i * 256)"
    by simp
qed

lemma set_absolute_humidity_overflow:
  fixes self :: "('s, 'x) SGP30"
  assumes "0 < g" and "float_max < g * 256"
  shows "set_absolute_humidity self float_max (PyFloat g) s = (Inl IntOfInfinity, s)"
  using assms by (simp add: set_absolute_humidity_def)

text \<open>
  Claim C6, as amended. For every positive input whose product with 256 is a finite
  number (a float \<open>g\<close> with \<open>g * 256\<close> not above the largest finite float, or an integer
  \<open>i\<close>), \<open>set_absolute_humidity\<close> sends the single word \<open>int(g * 256)\<close>, the product
  truncated (its floor, the input being positive) and not rounded, reduced modulo 2^16,
  with a result of 0 replaced by 1; so 10.0 sends 2560 and 0.002 sends 1. For every
  input \<open>\<le> 0\<close> it raises the invalid-humidity error and leaves the world as it was,
  whatever the bus is. For a positive float beyond the bound, the product is infinite
  and \<open>int\<close> raises, as it does for an infinity and a NaN, again with the world as it
  was.
\<close>

theorem set_absolute_humidity_encoding:
  fixes self :: "('s, 'x) SGP30"
  shows "(0 < g \<and> g * 256 \<le> float_max \<longrightarrow>
            set_absolute_humidity self float_max (PyFloat g) s =
              bus_call (writeto self (address self)
                (extend_args [0x20, 0x61]
                   [if \<lfloor>g * 256\<rfloor> mod 65536 = 0 then 1 else \<lfloor>g * 256\<rfloor> mod 65536]) s))
       \<and> (0 < i \<longrightarrow>
            set_absolute_humidity self float_max (PyInt i) s =
              bus_call (writeto self (address self)
                (extend_args [0x20, 0x61]
                   [if (i * 256) mod 65536 = 0 then 1 else (i * 256) mod 65536]) s))
       \<and> (g \<le> 0 \<longrightarrow>
            set_absolute_humidity self float_max (PyFloat g) s = (Inl InvalidHumidity, s))
       \<and> (i \<le> 0 \<longrightarrow>
            set_absolute_humidity self float_max (PyInt i) s = (Inl InvalidHumidity, s))
       \<and> set_absolute_humidity self float_max PyNegInf s = (Inl InvalidHumidity, s)
       \<and> (2560 \<le> float_max \<longrightarrow>
            set_absolute_humidity self float_max (PyFloat 10) s =
              bus_call (writeto self (address self) [0x20, 0x61, 0x0A, 0x00, 0x6F] s))
       \<and> (2560 \<le> float_max \<longrightarrow>
            set_absolute_humidity self float_max (PyFloat (2 / 1000)) s =
              bus_call (writeto self (address self) [0x20, 0x61, 0x00, 0x01, 0xB0] s))
       \<and> (0 < g \<and> float_max < g * 256 \<longrightarrow>
            set_absolute_humidity self float_max (PyFloat g) s = (Inl IntOfInfinity, s))
       \<and> set_absolute_humidity self float_max PyInf s = (Inl IntOfInfinity, s)
       \<and> set_absolute_humidity self float_max PyNaN s = (Inl IntOfNaN, s)"
proof (intro conjI impI; (elim conjE)?)
  assume "0 < g" and "g * 256 \<le> float_max"
  then show "set_absolute_humidity self float_max (PyFloat g) s =
              bus_call (writeto self (address self)
                (extend_args [0x20, 0x61]
                   [if \<lfloor>g * 256\<rfloor> mod 65536 = 0 then 1 else \<lfloor>g * 256\<rfloor> mod 65536]) s)"
    by (rule set_absolute_humidity_float)
next
  assume "0 < i"
  then show "set_absolute_humidity self float_max (PyInt i) s =
              bus_call (writeto self (address self)
                (extend_args [0x20, 0x61]
                   [if (i * 256) mod 65536 = 0 then 1 else (i * 256) mod 65536]) s)"
    by (rule set_absolute_humidity_int)
next
  assume "g \<le> 0"
  then show "set_absolute_humidity self float_max (PyFloat g) s = (Inl InvalidHumidity, s)"
    by (simp add: set_absolute_humidity_def)
next
  assume "i \<le> 0"
  then show "set_absolute_humidity self float_max (PyInt i) s = (Inl InvalidHumidity, s)"
    by (simp add: set_absolute_humidity_def)
next
  show "set_absolute_humidity self float_max PyNegInf s = (Inl InvalidHumidity, s)"
    by (simp add: set_absolute_humidity_def)
next
  assume m: "2560 \<le> float_max"
  have "\<lfloor>(10::rat) * 256\<rfloor> mod 65536 = 2560" by simp
  then show "set_absolute_humidity self float_max (PyFloat 10) s =
            bus_call (writeto self (address self) [0x20, 0x61, 0x0A, 0x00, 0x6F] s)"
    using set_absolute_humidity_float [of 10 float_max self s] m
    by (simp add: Let_def crc8_0A_00)
next
  assume m: "2560 \<le> float_max"
  have "\<lfloor>(2 / 1000 :: rat) * 256\<rfloor> = 0" by (simp add: floor_eq_iff)
  then show "set_absolute_humidity self float_max (PyFloat (2 / 1000)) s =
            bus_call (writeto self (address self) [0x20, 0x61, 0x00, 0x01, 0xB0] s)"
    using set_absolute_humidity_float [of "2 / 1000" float_max self s] m
    by (simp add: Let_def crc8_0_1)
next
  assume "0 < g" and "float_max < g * 256"
  then show "set_absolute_humidity self float_max (PyFloat g) s = (Inl IntOfInfinity, s)"
    by (rule set_absolute_humidity_overflow)
next
  show "set_absolute_humidity self float_max PyInf s = (Inl IntOfInfinity, s)"
    by (simp add: set_absolute_humidity_def)
next
  show "set_absolute_humidity self float_max PyNaN s = (Inl IntOfNaN, s)"
    by (simp add: set_absolute_humidity_def)
qed

theorem set_absolute_humidity_encoding_witness:
  "set_absolute_humidity fake_sgp30 float_max_single (PyFloat (7 / 1024)) (fake_world [] None)
     = (Inr (), (fake_world [] None)\<lparr>written := [(0x58, [0x20, 0x61, 0x00, 0x01, 0xB0])]\<rparr>)
   \<and> set_absolute_humidity fake_sgp30 float_max_single (PyFloat 256) (fake_world [] None)
     = (Inr (), (fake_world [] None)\<lparr>written := [(0x58, [0x20, 0x61, 0x00, 0x01, 0xB0])]\<rparr>)
   \<and> set_absolute_humidity fake_sgp30 float_max_single (PyInt 10) (fake_world [] None)
     = (Inr (), (fake_world [] None)\<lparr>written := [(0x58, [0x20, 0x61, 0x0A, 0x00, 0x6F])]\<rparr>)
   \<and> set_absolute_humidity fake_sgp30 float_max_single (PyFloat (- 1 / 2)) (fake_world [] None)
     = (Inl InvalidHumidity, fake_world [] None)
   \<and> set_absolute_humidity fake_sgp30 float_max_single (PyFloat (2 ^ 120)) (fake_world [] None)
     = (Inl IntOfInfinity, fake_world [] None)"
proof -
  have f: "\<lfloor>(7 / 4 :: rat)\<rfloor> = 1" by (simp add: floor_eq_iff)
  have a: "set_absolute_humidity fake_sgp30 float_max_single (PyFloat (7 / 1024)) (fake_world [] None)
     = (Inr (), (fake_world [] None)\<lparr>written := [(0x58, [0x20, 0x61, 0x00, 0x01, 0xB0])]\<rparr>)"
    using set_absolute_humidity_encoding [where g = "7 / 1024" and self = fake_sgp30
        and float_max = float_max_single and s = "fake_world [] None", THEN conjunct1]
    by (simp add: f crc8_0_1 Let_def fake_defs float_max_single_def)
  have b: "set_absolute_humidity fake_sgp30 float_max_single (PyFloat 256) (fake_world [] None)
     = (Inr (), (fake_world [] None)\<lparr>written := [(0x58, [0x20, 0x61, 0x00, 0x01, 0xB0])]\<rparr>)"
    using set_absolute_humidity_encoding [where g = 256 and self = fake_sgp30
        and float_max = float_max_single and s = "fake_world [] None", THEN conjunct1]
    by (simp add: crc8_0_1 Let_def fake_defs float_max_single_def)
  have c: "set_absolute_humidity fake_sgp30 float_max_single (PyInt 10) (fake_world [] None)
     = (Inr (), (fake_world [] None)\<lparr>written := [(0x58, [0x20, 0x61, 0x0A, 0x00, 0x6F])]\<rparr>)"
    using set_absolute_humidity_encoding [where i = 10 and self = fake_sgp30
        and float_max = float_max_single and s = "fake_world [] None",
        THEN conjunct2, THEN conjunct1]
    by (simp add: crc8_0A_00 Let_def fake_defs)
  have n: "set_absolute_humidity fake_sgp30 float_max_single (PyFloat (- 1 / 2)) (fake_world [] None)
     = (Inl InvalidHumidity, fake_world [] None)"
    using set_absolute_humidity_encoding [where g = "- 1 / 2" and self = fake_sgp30
        and float_max = float_max_single and s = "fake_world [] None",
        THEN conjunct2, THEN conjunct2, THEN conjunct1]
    by simp
  have o: "set_absolute_humidity fake_sgp30 float_max_single (PyFloat (2 ^ 120)) (fake_world [] None)
     = (Inl IntOfInfinity, fake_world [] None)"
    using set_absolute_humidity_encoding [where g = "2 ^ 120" and self = fake_sgp30
        and float_max = float_max_single and s = "fake_world [] None",
        THEN conjunct2, THEN conjunct2, THEN conjunct2, THEN conjunct2, THEN conjunct2,
        THEN conjunct2, THEN conjunct2, THEN conjunct1]
    by (simp add: float_max_single_def)
  show ?thesis using a b c n o by simp
qed

text \<open>
  Claim C6 as stated fails: for the input 15/2048 (a float, 0.00732421875) the product
  with 256 is 1.875; rounding gives the word 2, while the driver truncates and sends the
  word 1.
\<close>

theorem set_absolute_humidity_round_counterexample:
  "humidity_word_spec (15 / 2048) = 2
   \<and> set_absolute_humidity fake_sgp30 float_max_single (PyFloat (15 / 2048)) (fake_world [] None)
       = (Inr (), (fake_world [] None)\<lparr>written := [(0x58, [0x20, 0x61, 0x00, 0x01, 0xB0])]\<rparr>)
   \<and> write_command fake_sgp30 CMD_SET_ABSOLUTE_HUMIDITY [humidity_word_spec (15 / 2048)]
         (fake_world [] None)
       = (Inr (), (fake_world [] None)\<lparr>written := [(0x58, [0x20, 0x61, 0x00, 0x02, 0xE3])]\<rparr>)"
proof -
  have r: "round (15 / 2048 * 256 :: rat) = 2"
    by (simp add: round_def floor_eq_iff)
  have h: "humidity_word_spec (15 / 2048) = 2"
    by (simp only: humidity_word_spec_def r) simp
  have f: "\<lfloor>(15 / 8 :: rat)\<rfloor> = 1" by (simp add: floor_eq_iff)
  have c: "crc8 [0, 2] = 0xE3" by code_simp
  have m: "(15 / 2048 :: rat) * 256 \<le> float_max_single"
    by (simp add: float_max_single_def)
  have a: "set_absolute_humidity fake_sgp30 float_max_single (PyFloat (15 / 2048)) (fake_world [] None)
       = (Inr (), (fake_world [] None)\<lparr>written := [(0x58, [0x20, 0x61, 0x00, 0x01, 0xB0])]\<rparr>)"
    using set_absolute_humidity_float [of "15 / 2048" float_max_single fake_sgp30
        "fake_world [] None", OF _ m]
    by (simp add: f crc8_0_1 Let_def fake_defs)
  have b: "write_command fake_sgp30 CMD_SET_ABSOLUTE_HUMIDITY [humidity_word_spec (15 / 2048)]
         (fake_world [] None)
       = (Inr (), (fake_world [] None)\<lparr>written := [(0x58, [0x20, 0x61, 0x00, 0x02, 0xE3])]\<rparr>)"
    by (simp only: h) (simp add: c Let_def fake_defs CMD_SET_ABSOLUTE_HUMIDITY_def)
  show ?thesis using h a b by simp
qed

lemma write_command_raises:
  fixes self :: "('s, 'x) SGP30"
  assumes "writeto self (address self) (extend_args (cmd_to_bytes cmd) arguments) s = (Inl x, s')"
  shows "write_command self cmd arguments s = (Inl (Transport x), s')"
  using assms by (simp add: write_command_def bus_call_def)

lemma write_command_returns:
  fixes self :: "('s, 'x) SGP30"
  assumes "writeto self (address self) (extend_args (cmd_to_bytes cmd) arguments) s = (Inr u, s')"
  shows "write_command self cmd arguments s = (Inr (), s')"
  using assms by (simp add: write_command_def bus_call_def)

lemma read_words_with_crc_raises:
  fixes self :: "('s, 'x) SGP30"
  assumes "readfrom self (address self) (n * 3) (if d \<noteq> 0 then sleep self d s else s) = (Inl x, s')"
  shows "read_words_with_crc self n d s = (Inl (Transport x), s')"
  using assms by (simp add: read_words_with_crc_def read_bytes_def io_bind_def bus_call_def)

lemma soft_reset_returns:
  fixes self :: "('s, 'x) SGP30"
  shows "soft_reset self s = (Inr (), snd (writeto self (address self) [0x00, 0x06] s))"
  by (simp add: soft_reset_def write_command_def bus_call_def cmd_to_bytes_def CMD_SOFT_RESET_def
      split: prod.split sum.split)

text \<open>
  Claim C9. Whatever the bus does, \<open>soft_reset\<close> returns normally: an exception raised by
  the bus write of its frame is swallowed (the world is the one the failed write left).
  Every other operation propagates a transport failure unchanged: when the bus write of
  its command frame raises \<open>x\<close>, the operation raises \<open>x\<close>; and for the operations that read,
  when the write succeeds and the bus read raises \<open>x\<close>, the operation raises \<open>x\<close>.
  \<open>set_baseline\<close> and \<open>set_absolute_humidity\<close> write a frame only for the arguments that
  pass their checks (for the humidity, a positive integer, or a positive float whose
  product with 256 is finite), so their part is stated for those.
\<close>

theorem soft_reset_swallows_transport_failure:
  fixes self :: "('s, 'x) SGP30"
  shows "fst (soft_reset self s) = Inr ()
     \<and> (writeto self (address self) [0x00, 0x06] s = (Inl x, s') \<longrightarrow>
          soft_reset self s = (Inr (), s'))
     \<and> (writeto self (address self) [0x20, 0x03] s = (Inl x, s') \<longrightarrow>
          init_air_quality self s = (Inl (Transport x), s'))
     \<and> (writeto self (address self) [0x20, 0x08] s = (Inl x, s') \<longrightarrow>
          measure_iaq self s = (Inl (Transport x), s'))
     \<and> (writeto self (address self) [0x20, 0x50] s = (Inl x, s') \<longrightarrow>
          measure_raw self s = (Inl (Transport x), s'))
     \<and> (writeto self (address self) [0x20, 0x32] s = (Inl x, s') \<longrightarrow>
          measure_test self s = (Inl (Transport x), s'))
     \<and> (writeto self (address self) [0x20, 0x15] s = (Inl x, s') \<longrightarrow>
          get_baseline self s = (Inl (Transport x), s'))
     \<and> (writeto self (address self) [0x36, 0x82] s = (Inl x, s') \<longrightarrow>
          get_serial_id self s = (Inl (Transport x), s'))
     \<and> ((eCO2 \<noteq> 0 \<or> TVOC \<noteq> 0)
          \<and> writeto self (address self)
                (extend_args [0x20, 0x1E] [TVOC AND 0xFFFF, eCO2 AND 0xFFFF]) s = (Inl x, s') \<longrightarrow>
          set_baseline self eCO2 TVOC s = (Inl (Transport x), s'))
     \<and> (0 < g \<and> g * 256 \<le> float_max
          \<and> writeto self (address self)
                (extend_args [0x20, 0x61]
                   [if py_int (g * 256) AND 0xFFFF = 0 then 1 else py_int (g * 256) AND 0xFFFF]) s
              = (Inl x, s') \<longrightarrow>
          set_absolute_humidity self float_max (PyFloat g) s = (Inl (Transport x), s'))
     \<and> (0 < i
          \<and> writeto self (address self)
                (extend_args [0x20, 0x61]
                   [if (i * 256) AND 0xFFFF = 0 then 1 else (i * 256) AND 0xFFFF]) s
              = (Inl x, s') \<longrightarrow>
          set_absolute_humidity self float_max (PyInt i) s = (Inl (Transport x), s'))
     \<and> (writeto self (address self) [0x20, 0x08] s = (Inr (), s1)
          \<and> readfrom self (address self) (2 * 3) (sleep self (15 / 1000) s1) = (Inl x, s2) \<longrightarrow>
          measure_iaq self s = (Inl (Transport x), s2))
     \<and> (writeto self (address self) [0x20, 0x50] s = (Inr (), s1)
          \<and> readfrom self (address self) (2 * 3) (sleep self (2 / 100) s1) = (Inl x, s2) \<longrightarrow>
          measure_raw self s = (Inl (Transport x), s2))
     \<and> (writeto self (address self) [0x20, 0x32] s = (Inr (), s1)
          \<and> readfrom self (address self) (1 * 3) (sleep self (2 / 10) s1) = (Inl x, s2) \<longrightarrow>
          measure_test self s = (Inl (Transport x), s2))
     \<and> (writeto self (address self) [0x20, 0x15] s = (Inr (), s1)
          \<and> readfrom self (address self) (2 * 3) (sleep self (15 / 1000) s1) = (Inl x, s2) \<longrightarrow>
          get_baseline self s = (Inl (Transport x), s2))
     \<and> (writeto self (address self) [0x36, 0x82] s = (Inr (), s1)
          \<and> readfrom self (address self) (3 * 3) (sleep self (1 / 1000) s1) = (Inl x, s2) \<longrightarrow>
          get_serial_id self s = (Inl (Transport x), s2))"
proof (intro conjI impI; (elim conjE)?)
  show "fst (soft_reset self s) = Inr ()"
    by (simp add: soft_reset_returns)
next
  assume "writeto self (address self) [0x00, 0x06] s = (Inl x, s')"
  then show "soft_reset self s = (Inr (), s')"
    by (simp add: soft_reset_returns)
next
  assume "writeto self (address self) [0x20, 0x03] s = (Inl x, s')"
  then show "init_air_quality self s = (Inl (Transport x), s')"
    by (simp add: init_air_quality_def io_bind_def write_command_raises cmd_to_bytes_def
        CMD_INIT_AIR_QUALITY_def)
next
  assume "writeto self (address self) [0x20, 0x08] s = (Inl x, s')"
  then show "measure_iaq self s = (Inl (Transport x), s')"
    by (simp add: measure_iaq_def io_bind_def write_command_raises cmd_to_bytes_def
        CMD_MEASURE_IAQ_def)
next
  assume "writeto self (address self) [0x20, 0x50] s = (Inl x, s')"
  then show "measure_raw self s = (Inl (Transport x), s')"
    by (simp add: measure_raw_def io_bind_def write_command_raises cmd_to_bytes_def
        CMD_MEASURE_RAW_def)
next
  assume "writeto self (address self) [0x20, 0x32] s = (Inl x, s')"
  then show "measure_test self s = (Inl (Transport x), s')"
    by (simp add: measure_test_def io_bind_def write_command_raises cmd_to_bytes_def
        CMD_MEASURE_TEST_def)
next
  assume "writeto self (address self) [0x20, 0x15] s = (Inl x, s')"
  then show "get_baseline self s = (Inl (Transport x), s')"
    by (simp add: get_baseline_def io_bind_def write_command_raises cmd_to_bytes_def
        CMD_GET_IAQ_BASELINE_def)
next
  assume "writeto self (address self) [0x36, 0x82] s = (Inl x, s')"
  then show "get_serial_id self s = (Inl (Transport x), s')"
    by (simp add: get_serial_id_def io_bind_def write_command_raises cmd_to_bytes_def
        CMD_GET_SERIAL_ID_def)
next
  assume "eCO2 \<noteq> 0 \<or> TVOC \<noteq> 0"
    and "writeto self (address self)
           (extend_args [0x20, 0x1E] [TVOC AND 0xFFFF, eCO2 AND 0xFFFF]) s = (Inl x, s')"
  then show "set_baseline self eCO2 TVOC s = (Inl (Transport x), s')"
    by (auto simp add: set_baseline_def write_command_raises cmd_to_bytes_def
        CMD_SET_IAQ_BASELINE_def simp del: extend_args.simps)
next
  assume p: "0 < g" "g * 256 \<le> float_max"
    and w: "writeto self (address self)
           (extend_args [0x20, 0x61]
              [if py_int (g * 256) AND 0xFFFF = 0 then 1 else py_int (g * 256) AND 0xFFFF]) s
         = (Inl x, s')"
  from p have "\<not> float_max < g * 256" "\<not> g * 256 < - float_max"
    by simp_all
  with p w show "set_absolute_humidity self float_max (PyFloat g) s = (Inl (Transport x), s')"
    by (simp add: set_absolute_humidity_def write_command_raises cmd_to_bytes_def
        CMD_SET_ABSOLUTE_HUMIDITY_def Let_def del: extend_args.simps)
next
  assume "0 < i"
    and "writeto self (address self)
           (extend_args [0x20, 0x61]
              [if (i * 256) AND 0xFFFF = 0 then 1 else (i * 256) AND 0xFFFF]) s
         = (Inl x, s')"
  then show "set_absolute_humidity self float_max (PyInt i) s = (Inl (Transport x), s')"
    by (simp add: set_absolute_humidity_def write_command_raises cmd_to_bytes_def
        CMD_SET_ABSOLUTE_HUMIDITY_def Let_def del: extend_args.simps)
next
  assume "writeto self (address self) [0x20, 0x08] s = (Inr (), s1)"
    and "readfrom self (address self) (2 * 3) (sleep self (15 / 1000) s1) = (Inl x, s2)"
  then show "measure_iaq self s = (Inl (Transport x), s2)"
    by (simp add: measure_iaq_def io_bind_def write_command_returns read_words_with_crc_raises
        cmd_to_bytes_def CMD_MEASURE_IAQ_def)
next
  assume "writeto self (address self) [0x20, 0x50] s = (Inr (), s1)"
    and "readfrom self (address self) (2 * 3) (sleep self (2 / 100) s1) = (Inl x, s2)"
  then show "measure_raw self s = (Inl (Transport x), s2)"
    by (simp add: measure_raw_def io_bind_def write_command_returns read_words_with_crc_raises
        cmd_to_bytes_def CMD_MEASURE_RAW_def)
next
  assume "writeto self (address self) [0x20, 0x32] s = (Inr (), s1)"
    and "readfrom self (address self) (1 * 3) (sleep self (2 / 10) s1) = (Inl x, s2)"
  then show "measure_test self s = (Inl (Transport x), s2)"
    by (simp add: measure_test_def io_bind_def write_command_returns read_words_with_crc_raises
        cmd_to_bytes_def CMD_MEASURE_TEST_def)
next
  assume "writeto self (address self) [0x20, 0x15] s = (Inr (), s1)"
    and "readfrom self (address self) (2 * 3) (sleep self (15 / 1000) s1) = (Inl x, s2)"
  then show "get_baseline self s = (Inl (Transport x), s2)"
    by (simp add: get_baseline_def io_bind_def write_command_returns read_words_with_crc_raises
        cmd_to_bytes_def CMD_GET_IAQ_BASELINE_def)
next
  assume "writeto self (address self) [0x36, 0x82] s = (Inr (), s1)"
    and "readfrom self (address self) (3 * 3) (sleep self (1 / 1000) s1) = (Inl x, s2)"
  then show "get_serial_id self s = (Inl (Transport x), s2)"
    by (simp add: get_serial_id_def io_bind_def write_command_returns read_words_with_crc_raises
        cmd_to_bytes_def CMD_GET_SERIAL_ID_def)
qed


theorem soft_reset_swallows_transport_failure_witness:
  "soft_reset fake_sgp30 (fake_world [] (Some 5)) = (Inr (), fake_world [] (Some 5))
   \<and> init_air_quality fake_sgp30 (fake_world [] (Some 5)) = (Inl (Transport 5), fake_world [] (Some 5))
   \<and> measure_iaq fake_sgp30 (fake_world [] (Some 5)) = (Inl (Transport 5), fake_world [] (Some 5))
   \<and> measure_raw fake_sgp30 (fake_world [] (Some 5)) = (Inl (Transport 5), fake_world [] (Some 5))
   \<and> measure_test fake_sgp30 (fake_world [] (Some 5)) = (Inl (Transport 5), fake_world [] (Some 5))
   \<and> get_baseline fake_sgp30 (fake_world [] (Some 5)) = (Inl (Transport 5), fake_world [] (Some 5))
   \<and> get_serial_id fake_sgp30 (fake_world [] (Some 5)) = (Inl (Transport 5), fake_world [] (Some 5))
   \<and> set_baseline fake_sgp30 100 200 (fake_world [] (Some 5)) = (Inl (Transport 5), fake_world [] (Some 5))
   \<and> set_absolute_humidity fake_sgp30 float_max_single (PyFloat 10) (fake_world [] (Some 5)) = (Inl (Transport 5), fake_world [] (Some 5))
     \<and> set_absolute_humidity fake_sgp30 float_max_single (PyInt 10) (fake_world [] (Some 5)) = (Inl (Transport 5), fake_world [] (Some 5))
   \<and> measure_iaq fake_sgp30 (fake_world [Inl 7] None)
       = (Inl (Transport 7), (fake_world [] None)\<lparr>written := [(0x58, [0x20, 0x08])], slept := [15 / 1000]\<rparr>)
   \<and> measure_raw fake_sgp30 (fake_world [Inl 7] None)
       = (Inl (Transport 7), (fake_world [] None)\<lparr>written := [(0x58, [0x20, 0x50])], slept := [2 / 100]\<rparr>)
   \<and> measure_test fake_sgp30 (fake_world [Inl 7] None)
       = (Inl (Transport 7), (fake_world [] None)\<lparr>written := [(0x58, [0x20, 0x32])], slept := [2 / 10]\<rparr>)
   \<and> get_baseline fake_sgp30 (fake_world [Inl 7] None)
       = (Inl (Transport 7), (fake_world [] None)\<lparr>written := [(0x58, [0x20, 0x15])], slept := [15 / 1000]\<rparr>)
   \<and> get_serial_id fake_sgp30 (fake_world [Inl 7] None)
       = (Inl (Transport 7), (fake_world [] None)\<lparr>written := [(0x58, [0x36, 0x82])], slept := [1 / 1000]\<rparr>)"
proof -
  have w: "soft_reset fake_sgp30 (fake_world [] (Some 5)) = (Inr (), fake_world [] (Some 5))
     \<and> init_air_quality fake_sgp30 (fake_world [] (Some 5)) = (Inl (Transport 5), fake_world [] (Some 5))
     \<and> measure_iaq fake_sgp30 (fake_world [] (Some 5)) = (Inl (Transport 5), fake_world [] (Some 5))
     \<and> measure_raw fake_sgp30 (fake_world [] (Some 5)) = (Inl (Transport 5), fake_world [] (Some 5))
     \<and> measure_test fake_sgp30 (fake_world [] (Some 5)) = (Inl (Transport 5), fake_world [] (Some 5))
     \<and> get_baseline fake_sgp30 (fake_world [] (Some 5)) = (Inl (Transport 5), fake_world [] (Some 5))
     \<and> get_serial_id fake_sgp30 (fake_world [] (Some 5)) = (Inl (Transport 5), fake_world [] (Some 5))
     \<and> set_baseline fake_sgp30 100 200 (fake_world [] (Some 5)) = (Inl (Transport 5), fake_world [] (Some 5))
     \<and> set_absolute_humidity fake_sgp30 float_max_single (PyFloat 10) (fake_world [] (Some 5)) = (Inl (Transport 5), fake_world [] (Some 5))
     \<and> set_absolute_humidity fake_sgp30 float_max_single (PyInt 10) (fake_world [] (Some 5)) = (Inl (Transport 5), fake_world [] (Some 5))"
    using soft_reset_swallows_transport_failure [where self = fake_sgp30
        and s = "fake_world [] (Some 5)" and x = 5 and s' = "fake_world [] (Some 5)"
        and ?eCO2.0 = 100 and TVOC = 200 and g = 10 and i = 10
        and float_max = float_max_single]
    by (simp add: fake_sgp30_def fake_world_def fake_writeto_def float_max_single_def)
  have r0: "measure_iaq fake_sgp30 (fake_world [Inl 7] None)
       = (Inl (Transport 7), (fake_world [] None)\<lparr>written := [(0x58, [0x20, 0x08])], slept := [15 / 1000]\<rparr>)"
    using soft_reset_swallows_transport_failure [where self = fake_sgp30
        and s = "fake_world [Inl 7] None" and x = 7
        and ?s1.0 = "(fake_world [Inl 7] None)\<lparr>written := [(0x58, [0x20, 0x08])]\<rparr>"
        and ?s2.0 = "(fake_world [] None)\<lparr>written := [(0x58, [0x20, 0x08])], slept := [15 / 1000]\<rparr>"]
    by (simp add: fake_sgp30_def fake_world_def fake_writeto_def fake_readfrom_def fake_sleep_def)
  have r1: "measure_raw fake_sgp30 (fake_world [Inl 7] None)
       = (Inl (Transport 7), (fake_world [] None)\<lparr>written := [(0x58, [0x20, 0x50])], slept := [2 / 100]\<rparr>)"
    using soft_reset_swallows_transport_failure [where self = fake_sgp30
        and s = "fake_world [Inl 7] None" and x = 7
        and ?s1.0 = "(fake_world [Inl 7] None)\<lparr>written := [(0x58, [0x20, 0x50])]\<rparr>"
        and ?s2.0 = "(fake_world [] None)\<lparr>written := [(0x58, [0x20, 0x50])], slept := [2 / 100]\<rparr>"]
    by (simp add: fake_sgp30_def fake_world_def fake_writeto_def fake_readfrom_def fake_sleep_def)
  have r2: "measure_test fake_sgp30 (fake_world [Inl 7] None)
       = (Inl (Transport 7), (fake_world [] None)\<lparr>written := [(0x58, [0x20, 0x32])], slept := [2 / 10]\<rparr>)"
    using soft_reset_swallows_transport_failure [where self = fake_sgp30
        and s = "fake_world [Inl 7] None" and x = 7
        and ?s1.0 = "(fake_world [Inl 7] None)\<lparr>written := [(0x58, [0x20, 0x32])]\<rparr>"
        and ?s2.0 = "(fake_world [] None)\<lparr>written := [(0x58, [0x20, 0x32])], slept := [2 / 10]\<rparr>"]
    by (simp add: fake_sgp30_def fake_world_def fake_writeto_def fake_readfrom_def fake_sleep_def)
  have r3: "get_baseline fake_sgp30 (fake_world [Inl 7] None)
       = (Inl (Transport 7), (fake_world [] None)\<lparr>written := [(0x58, [0x20, 0x15])], slept := [15 / 1000]\<rparr>)"
    using soft_reset_swallows_transport_failure [where self = fake_sgp30
        and s = "fake_world [Inl 7] None" and x = 7
        and ?s1.0 = "(fake_world [Inl 7] None)\<lparr>written := [(0x58, [0x20, 0x15])]\<rparr>"
        and ?s2.0 = "(fake_world [] None)\<lparr>written := [(0x58, [0x20, 0x15])], slept := [15 / 1000]\<rparr>"]
    by (simp add: fake_sgp30_def fake_world_def fake_writeto_def fake_readfrom_def fake_sleep_def)
  have r4: "get_serial_id fake_sgp30 (fake_world [Inl 7] None)
       = (Inl (Transport 7), (fake_world [] None)\<lparr>written := [(0x58, [0x36, 0x82])], slept := [1 / 1000]\<rparr>)"
    using soft_reset_swallows_transport_failure [where self = fake_sgp30
        and s = "fake_world [Inl 7] None" and x = 7
        and ?s1.0 = "(fake_world [Inl 7] None)\<lparr>written := [(0x58, [0x36, 0x82])]\<rparr>"
        and ?s2.0 = "(fake_world [] None)\<lparr>written := [(0x58, [0x36, 0x82])], slept := [1 / 1000]\<rparr>"]
    by (simp add: fake_sgp30_def fake_world_def fake_writeto_def fake_readfrom_def fake_sleep_def)
  show ?thesis using w r0 r1 r2 r3 r4 by simp
qed


end
